theory Spec2Isabelle
  imports Complex_Main
begin

section \<open>Python strings\<close>

text \<open>
  Python \<open>str\<close> values are modelled as HOL strings whose characters stand for the code
  points 0..255. The helpers below follow the Python built-ins used by the source:
  \<open>str.isspace\<close> on one character, \<open>str.strip()\<close>, \<open>str.split(sep)\<close> with a
  one-character separator, \<open>sep.join(list)\<close>, \<open>str.lower()\<close> and \<open>str(int)\<close>.
\<close>

definition is_space :: "char \<Rightarrow> bool" where
  "is_space c =
     (let n = of_char c :: nat
      in (9 \<le> n \<and> n \<le> 13) \<or> (28 \<le> n \<and> n \<le> 32) \<or> n = 133 \<or> n = 160)"

definition strip :: "string \<Rightarrow> string" where
  "strip s = rev (dropWhile is_space (rev (dropWhile is_space s)))"

fun split_on :: "char \<Rightarrow> string \<Rightarrow> string list" where
  "split_on sep [] = [[]]"
| "split_on sep (c # cs) =
     (if c = sep then [] # split_on sep cs
      else (c # hd (split_on sep cs)) # tl (split_on sep cs))"

fun join_str :: "string \<Rightarrow> string list \<Rightarrow> string" where
  "join_str sep [] = []"
| "join_str sep [x] = x"
| "join_str sep (x # y # ys) = x @ sep @ join_str sep (y # ys)"

definition lower_char :: "char \<Rightarrow> char" where
  "lower_char c =
     (let n = of_char c :: nat
      in if (65 \<le> n \<and> n \<le> 90) \<or> (192 \<le> n \<and> n \<le> 222 \<and> n \<noteq> 215)
         then char_of (n + 32) else c)"

definition lower :: "string \<Rightarrow> string" where
  "lower s = map lower_char s"

definition digit_char :: "nat \<Rightarrow> char" where
  "digit_char d = ''0123456789'' ! d"

fun str_nat :: "nat \<Rightarrow> string" where
  "str_nat n = (if n < 10 then [digit_char n] else str_nat (n div 10) @ [digit_char (n mod 10)])"

definition str_int :: "int \<Rightarrow> string" where
  "str_int i = (if i < 0 then CHR ''-'' # str_nat (nat (- i)) else str_nat (nat i))"

section \<open>Exceptions\<close>

text \<open>
  Every exception class that the source raises or catches is a constructor. An engine
  error of any other class is \<open>EngineError\<close> with its message.
\<close>

datatype exn =
    Exception string
  | ValueError string
  | AttributeError string
  | AssertionError
  | TimeoutError
  | TimeoutException
  | NoSuchElementException
  | ElementClickInterceptedException
  | EngineError string

section \<open>BSLocator (utils/locator.py)\<close>

text \<open>
  The field \<open>by\<close> holds one of the eight constants of Selenium's \<open>By\<close> class. The source
  compares it with \<open>is\<close> against those constants in \<open>BSLocator\<close> and with \<open>==\<close> against
  their string values in \<open>get_pw_locator\<close>; \<open>by_str\<close> gives the string values.
\<close>

datatype By = ID | XPATH | LINK_TEXT | PARTIAL_LINK_TEXT | NAME | TAG_NAME | CLASS_NAME | CSS_SELECTOR

fun by_str :: "By \<Rightarrow> string" where
  "by_str ID = ''id''"
| "by_str XPATH = ''xpath''"
| "by_str LINK_TEXT = ''link text''"
| "by_str PARTIAL_LINK_TEXT = ''partial link text''"
| "by_str NAME = ''name''"
| "by_str TAG_NAME = ''tag name''"
| "by_str CLASS_NAME = ''class name''"
| "by_str CSS_SELECTOR = ''css selector''"

record BSLocator =
  loc_by :: By
  loc_value :: string

definition as_tuple :: "BSLocator \<Rightarrow> By \<times> string" where
  "as_tuple self = (loc_by self, loc_value self)"

definition id_locator :: "string \<Rightarrow> BSLocator" where
  "id_locator element_id = \<lparr>loc_by = ID, loc_value = element_id\<rparr>"

definition name_locator :: "string \<Rightarrow> BSLocator" where
  "name_locator name = \<lparr>loc_by = NAME, loc_value = name\<rparr>"

definition class_name :: "string \<Rightarrow> BSLocator" where
  "class_name cn = \<lparr>loc_by = CLASS_NAME, loc_value = cn\<rparr>"

definition tag_name :: "string \<Rightarrow> BSLocator" where
  "tag_name tn = \<lparr>loc_by = TAG_NAME, loc_value = tn\<rparr>"

definition css :: "string \<Rightarrow> BSLocator" where
  "css css_selector = \<lparr>loc_by = CSS_SELECTOR, loc_value = css_selector\<rparr>"

definition xpath :: "string \<Rightarrow> BSLocator" where
  "xpath xp = \<lparr>loc_by = XPATH, loc_value = xp\<rparr>"

definition link_text :: "string \<Rightarrow> BSLocator" where
  "link_text t = \<lparr>loc_by = LINK_TEXT, loc_value = t\<rparr>"

definition partial_link_text :: "string \<Rightarrow> BSLocator" where
  "partial_link_text t = \<lparr>loc_by = PARTIAL_LINK_TEXT, loc_value = t\<rparr>"

definition get_descendant :: "BSLocator \<Rightarrow> BSLocator \<Rightarrow> exn + BSLocator" where
  "get_descendant self other =
     (if loc_by self = XPATH then Inr (xpath (loc_value self @ loc_value other))
      else if loc_by self = CSS_SELECTOR then
        (let subselectors = map strip (split_on CHR '','' (loc_value self))
         in Inr (css (join_str '', ''
              (map (\<lambda>ss. ss @ '' '' @ loc_value other)
                   (filter (\<lambda>ss. ss \<noteq> []) subselectors)))))
      else Inl (Exception ''BSLocator Concatenation Error''))"

definition get_nth_element :: "BSLocator \<Rightarrow> int \<Rightarrow> exn + BSLocator" where
  "get_nth_element self i =
     (if loc_by self = XPATH then
        Inr (xpath (''('' @ loc_value self @ '')['' @ str_int i @ '']''))
      else if loc_by self = CSS_SELECTOR then
        Inr (css (join_str '', ''
              (map (\<lambda>ss. strip ss @ '':nth-child('' @ str_int i @ '')'')
                   (filter (\<lambda>ss. strip ss \<noteq> []) (split_on CHR '','' (loc_value self))))))
      else Inl (Exception (''Error getting '' @ str_int i @ ''-th child of '' @ loc_value self)))"

section \<open>The automation engines\<close>

text \<open>
  Playwright, Camoufox and Selenium are third-party libraries. Their objects are taken as
  parameters: a record of the operations the wrappers invoke, each a function from the
  state of the browser to an outcome (\<open>Inl\<close> the exception raised, \<open>Inr\<close> the value
  returned) and the state afterwards. The type \<open>'w\<close> of browser states is arbitrary.
  Timeouts are real numbers; the wrappers only scale them and pass them on.
\<close>

type_synonym ('a, 'w) call = "'w \<Rightarrow> (exn + 'a) \<times> 'w"

text \<open>
  A Playwright \<open>Locator\<close> is a description that the engine resolves at each action:
  \<open>page.locator(selector)\<close>, \<open>.filter(has_text=t)\<close>, \<open>.filter(has_not_text=t)\<close> and
  \<open>.first\<close>.
\<close>

datatype pw_filter = HasText string | HasNotText string

datatype pw_locator = Locator string | Filtered pw_locator pw_filter | First pw_locator

record 'w Page =
  pg_to_be_attached :: "pw_locator \<Rightarrow> real \<Rightarrow> (unit, 'w) call"
  pg_is_visible :: "pw_locator \<Rightarrow> real \<Rightarrow> (bool, 'w) call"
  pg_get_attribute :: "pw_locator \<Rightarrow> string \<Rightarrow> real \<Rightarrow> (string option, 'w) call"
  pg_inner_text :: "pw_locator \<Rightarrow> real \<Rightarrow> (string, 'w) call"
  pg_all_inner_texts :: "pw_locator \<Rightarrow> (string list, 'w) call"
  pg_wait_for :: "pw_locator \<Rightarrow> string \<Rightarrow> real \<Rightarrow> (unit, 'w) call"
  pg_count :: "pw_locator \<Rightarrow> (int, 'w) call"
  pg_click :: "pw_locator \<Rightarrow> real \<Rightarrow> (unit, 'w) call"

record 'w AsyncCamoufox =
  aexit :: "(unit, 'w) call"

datatype Browser = BrowserHandle

text \<open>
  Playwright's \<open>Locator.filter(has_text=t)\<close> and \<open>Locator.filter(has_not_text=t)\<close> add
  their step to the description only when the text is not empty; with an empty text they
  return the locator unchanged.
\<close>

fun locator_filter :: "pw_locator \<Rightarrow> pw_filter \<Rightarrow> pw_locator" where
  "locator_filter l (HasText t) = (if t = [] then l else Filtered l (HasText t))"
| "locator_filter l (HasNotText t) = (if t = [] then l else Filtered l (HasNotText t))"

record 'w WebElement =
  elem_text :: "(string, 'w) call"
  elem_is_displayed :: "(bool, 'w) call"

datatype expected_condition =
    presence_of_element_located "By \<times> string"
  | visibility_of_element_located "By \<times> string"
  | element_to_be_clickable "By \<times> string"
  | invisibility_of_element_located "By \<times> string"

text \<open>
  \<open>drv_wait_until t c\<close> stands for \<open>WebDriverWait(driver, t).until(c)\<close>, with the value
  it returns dropped: no caller in the source uses it.
\<close>

record 'w Chrome =
  drv_find_element :: "By \<Rightarrow> string \<Rightarrow> ('w WebElement, 'w) call"
  drv_find_elements :: "By \<Rightarrow> string \<Rightarrow> ('w WebElement list, 'w) call"
  drv_wait_until :: "real \<Rightarrow> expected_condition \<Rightarrow> (unit, 'w) call"

section \<open>BSCmfx (bsplaywright/bscmfx.py)\<close>

text \<open>
  The three handles of the wrapper are \<open>None\<close> until \<open>initialize\<close> and after \<open>quit\<close>.
  \<open>AttributeError a\<close> is the error of reading attribute \<open>a\<close> of \<open>None\<close>.
\<close>

record 'w BSCmfx =
  camoufox_instance :: "'w AsyncCamoufox option"
  browser :: "Browser option"
  page :: "'w Page option"

definition get_pw_locator :: "BSLocator \<Rightarrow> exn + string" where
  "get_pw_locator locator =
     (if by_str (loc_by locator) = ''css selector'' then Inr (loc_value locator)
      else if by_str (loc_by locator) = ''xpath'' then Inr (''xpath='' @ loc_value locator)
      else Inl (ValueError (''Tipo de selector no v'' @ [CHR 0xE1] @ ''lido: ''
                            @ by_str (loc_by locator))))"

text \<open>
  The expression \<open>self.page.locator(self.get_pw_locator(locator))\<close>: the attribute
  \<open>locator\<close> of \<open>self.page\<close> is read first, then the argument is evaluated.
\<close>

definition page_locator :: "'w BSCmfx \<Rightarrow> BSLocator \<Rightarrow> exn + ('w Page \<times> pw_locator)" where
  "page_locator self locator =
     (case page self of
        None \<Rightarrow> Inl (AttributeError ''locator'')
      | Some pg \<Rightarrow>
          (case get_pw_locator locator of
             Inl e \<Rightarrow> Inl e
           | Inr s \<Rightarrow> Inr (pg, Locator s)))"

definition BSCmfx_is_element_present :: "'w BSCmfx \<Rightarrow> BSLocator \<Rightarrow> real \<Rightarrow> (bool, 'w) call" where
  "BSCmfx_is_element_present self locator timeout w =
     (case page_locator self locator of
        Inl e \<Rightarrow> (if e = AssertionError then Inr False else Inl e, w)
      | Inr (pg, l) \<Rightarrow>
          (case pg_to_be_attached pg (First l) (timeout * 1000) w of
             (Inl e, w') \<Rightarrow> (if e = AssertionError then Inr False else Inl e, w')
           | (Inr _, w') \<Rightarrow> (Inr True, w')))"

definition BSCmfx_is_element_visible :: "'w BSCmfx \<Rightarrow> BSLocator \<Rightarrow> real \<Rightarrow> (bool, 'w) call" where
  "BSCmfx_is_element_visible self locator timeout w =
     (case page_locator self locator of
        Inl e \<Rightarrow> (if e = TimeoutError then Inr False else Inl e, w)
      | Inr (pg, l) \<Rightarrow>
          (case pg_is_visible pg (First l) (timeout * 1000) w of
             (Inl e, w') \<Rightarrow> (if e = TimeoutError then Inr False else Inl e, w')
           | (Inr b, w') \<Rightarrow> (Inr b, w')))"

definition BSCmfx_wait_element_to_be_present :: "'w BSCmfx \<Rightarrow> BSLocator \<Rightarrow> real \<Rightarrow> (unit, 'w) call" where
  "BSCmfx_wait_element_to_be_present self locator timeout w =
     (case page_locator self locator of
        Inl e \<Rightarrow> (Inl e, w)
      | Inr (pg, l) \<Rightarrow> pg_to_be_attached pg (First l) (timeout * 1000) w)"

definition BSCmfx_get_attribute_value ::
  "'w BSCmfx \<Rightarrow> BSLocator \<Rightarrow> string \<Rightarrow> real \<Rightarrow> (string option, 'w) call" where
  "BSCmfx_get_attribute_value self locator attr timeout w =
     (case page_locator self locator of
        Inl e \<Rightarrow> (Inl e, w)
      | Inr (pg, l) \<Rightarrow> pg_get_attribute pg l attr (timeout * 1000) w)"

definition BSCmfx_check_attribute_is_equals ::
  "'w BSCmfx \<Rightarrow> BSLocator \<Rightarrow> string \<Rightarrow> string \<Rightarrow> bool \<Rightarrow> real \<Rightarrow> (bool, 'w) call" where
  "BSCmfx_check_attribute_is_equals self locator attr content ignore_case timeout w =
     (case BSCmfx_get_attribute_value self locator attr timeout w of
        (Inl e, w') \<Rightarrow> (Inl e, w')
      | (Inr attribute_value, w') \<Rightarrow>
          (if ignore_case then
             (case attribute_value of
                None \<Rightarrow> (Inl (AttributeError ''lower''), w')
              | Some v \<Rightarrow> (Inr (lower v = lower content), w'))
           else (Inr (attribute_value = Some content), w')))"

definition BSCmfx_get_element_text ::
  "'w BSCmfx \<Rightarrow> BSLocator \<Rightarrow> real \<Rightarrow> bool \<Rightarrow> (string option, 'w) call" where
  "BSCmfx_get_element_text self locator timeout raise_exception w =
     (case page_locator self locator of
        Inl e \<Rightarrow>
          (if e = TimeoutError then (if raise_exception then Inl e else Inr None) else Inl e, w)
      | Inr (pg, l) \<Rightarrow>
          (case pg_inner_text pg (First l) (timeout * 1000) w of
             (Inl e, w') \<Rightarrow>
               (if e = TimeoutError then (if raise_exception then Inl e else Inr None)
                else Inl e, w')
           | (Inr t, w') \<Rightarrow> (Inr (Some t), w')))"

definition BSCmfx_get_elements_text :: "'w BSCmfx \<Rightarrow> BSLocator \<Rightarrow> real \<Rightarrow> (string list, 'w) call" where
  "BSCmfx_get_elements_text self locator timeout w =
     (case BSCmfx_wait_element_to_be_present self locator timeout w of
        (Inl e, w1) \<Rightarrow> (if e = AssertionError then Inr [] else Inl e, w1)
      | (Inr _, w1) \<Rightarrow>
          (case page_locator self locator of
             Inl e \<Rightarrow> (if e = AssertionError then Inr [] else Inl e, w1)
           | Inr (pg, pw_locator) \<Rightarrow>
               (case pg_to_be_attached pg (First pw_locator) (timeout * 1000) w1 of
                  (Inl e, w2) \<Rightarrow> (if e = AssertionError then Inr [] else Inl e, w2)
                | (Inr _, w2) \<Rightarrow> pg_all_inner_texts pg pw_locator w2)))"

definition BSCmfx_get_elements_count :: "'w BSCmfx \<Rightarrow> BSLocator \<Rightarrow> real \<Rightarrow> (int, 'w) call" where
  "BSCmfx_get_elements_count self locator timeout w =
     (case page_locator self locator of
        Inl e \<Rightarrow> (Inl e, w)
      | Inr (pg, pw_loc) \<Rightarrow>
          (case pg_wait_for pg (First pw_loc) ''attached'' (timeout * 1000) w of
             (Inl e, w1) \<Rightarrow> (if e = TimeoutError then Inr 0 else Inl e, w1)
           | (Inr _, w1) \<Rightarrow>
               (case pg_count pg pw_loc w1 of
                  (Inl e, w2) \<Rightarrow> (if e = TimeoutError then Inr 0 else Inl e, w2)
                | (Inr n, w2) \<Rightarrow> (Inr n, w2))))"

definition BSCmfx_click_element_by_partial_texts ::
  "'w BSCmfx \<Rightarrow> BSLocator \<Rightarrow> string list \<Rightarrow> string list option \<Rightarrow> real \<Rightarrow> (bool, 'w) call" where
  "BSCmfx_click_element_by_partial_texts self locator partial_containing_texts
       partial_non_containing_texts timeout w =
     (case BSCmfx_wait_element_to_be_present self locator timeout w of
        (Inl e, w1) \<Rightarrow> (Inl e, w1)
      | (Inr _, w1) \<Rightarrow>
          (case page_locator self locator of
             Inl e \<Rightarrow> (Inl e, w1)
           | Inr (pg, loc_to_click) \<Rightarrow>
               (let l1 = foldl (\<lambda>l pt. locator_filter l (HasText pt)) loc_to_click
                           partial_containing_texts;
                    l2 = foldl (\<lambda>l pt. locator_filter l (HasNotText pt)) l1
                           (case partial_non_containing_texts of None \<Rightarrow> [] | Some pts \<Rightarrow> pts)
                in case pg_click pg (First l2) (timeout * 1000) w1 of
                     (Inl e, w2) \<Rightarrow> (if e = TimeoutError then Inr False else Inl e, w2)
                   | (Inr _, w2) \<Rightarrow> (Inr True, w2))))"

text \<open>
  \<open>quit\<close> returns the outcome, the wrapper after the call and the browser state. The
  class declares \<open>_camoufox_instance\<close>, so \<open>hasattr\<close> holds; an engine instance is a
  true value, \<open>None\<close> a false one.
\<close>

definition BSCmfx_quit :: "'w BSCmfx \<Rightarrow> 'w \<Rightarrow> (exn + unit) \<times> 'w BSCmfx \<times> 'w" where
  "BSCmfx_quit self w =
     (case camoufox_instance self of
        None \<Rightarrow> (Inr (), self, w)
      | Some inst \<Rightarrow>
          (case aexit inst w of
             (Inl e, w') \<Rightarrow> (Inl e, self, w')
           | (Inr _, w') \<Rightarrow>
               (Inr (), self\<lparr>camoufox_instance := None, browser := None, page := None\<rparr>, w')))"

section \<open>BSWebDriver (bsselenium/webdriver.py)\<close>

record 'w BSWebDriver =
  driver :: "'w Chrome"

function BSWebDriver_find_element ::
  "'w BSWebDriver \<Rightarrow> BSLocator \<Rightarrow> bool \<Rightarrow> ('w WebElement, 'w) call" where
  "BSWebDriver_find_element self locator retry w =
     (case drv_find_element (driver self) (loc_by locator) (loc_value locator) w of
        (Inl e, w') \<Rightarrow>
          (if e = NoSuchElementException then
             (if \<not> retry then (Inl e, w')
              else BSWebDriver_find_element self locator False w')
           else (Inl e, w'))
      | (Inr el, w') \<Rightarrow> (Inr el, w'))"
  by pat_completeness auto
termination
  by (relation "measure (\<lambda>(self, locator, retry, w). if retry then 1 else 0)") auto


definition BSWebDriver_wait_element_to_be_visible ::
  "'w BSWebDriver \<Rightarrow> BSLocator \<Rightarrow> bool \<Rightarrow> real \<Rightarrow> (unit, 'w) call" where
  "BSWebDriver_wait_element_to_be_visible self locator raise_exception tolerance_time w =
     (case drv_wait_until (driver self) tolerance_time
             (visibility_of_element_located (as_tuple locator)) w of
        (Inl e, w') \<Rightarrow>
          (if e = TimeoutException then (if raise_exception then Inl e else Inr ()) else Inl e, w')
      | (Inr _, w') \<Rightarrow> (Inr (), w'))"

definition BSWebDriver_get_text ::
  "'w BSWebDriver \<Rightarrow> BSLocator \<Rightarrow> bool \<Rightarrow> real \<Rightarrow> (string option, 'w) call" where
  "BSWebDriver_get_text self locator raise_exception timeout w =
     (case BSWebDriver_wait_element_to_be_visible self locator raise_exception timeout w of
        (Inl e, w1) \<Rightarrow> (Inl e, w1)
      | (Inr _, w1) \<Rightarrow>
          (case BSWebDriver_find_element self locator False w1 of
             (Inl e, w2) \<Rightarrow>
               (if e = TimeoutException then (if raise_exception then Inl e else Inr None)
                else Inl e, w2)
           | (Inr el, w2) \<Rightarrow>
               (case elem_text el w2 of
                  (Inl e, w3) \<Rightarrow>
                    (if e = TimeoutException then (if raise_exception then Inl e else Inr None)
                     else Inl e, w3)
                | (Inr t, w3) \<Rightarrow> (Inr (Some t), w3))))"

definition BSWebDriver_is_element_present ::
  "'w BSWebDriver \<Rightarrow> BSLocator \<Rightarrow> real \<Rightarrow> (bool, 'w) call" where
  "BSWebDriver_is_element_present self locator tolerance_time w =
     (case drv_wait_until (driver self) tolerance_time
             (presence_of_element_located (as_tuple locator)) w of
        (Inl e, w') \<Rightarrow> (if e = TimeoutException then Inr False else Inl e, w')
      | (Inr _, w') \<Rightarrow> (Inr True, w'))"

definition BSWebDriver_is_element_displayed ::
  "'w BSWebDriver \<Rightarrow> BSLocator \<Rightarrow> real \<Rightarrow> (bool, 'w) call" where
  "BSWebDriver_is_element_displayed self locator tolerance_time w =
     (case BSWebDriver_is_element_present self locator tolerance_time w of
        (Inl e, w1) \<Rightarrow> (Inl e, w1)
      | (Inr present, w1) \<Rightarrow>
          (if \<not> present then (Inr False, w1)
           else (case BSWebDriver_find_element self locator False w1 of
                   (Inl e, w2) \<Rightarrow> (Inl e, w2)
                 | (Inr el, w2) \<Rightarrow> elem_is_displayed el w2)))"

section \<open>Example engines\<close>

text \<open>
  Concrete engines on which the operations are evaluated. A static page holds a fixed
  list of elements; the browser state is the log of the engine calls made so far. An
  element matches the selectors listed in \<open>el_matches\<close>, and has a text when the text
  occurs in \<open>el_text\<close>.
\<close>

record element =
  el_matches :: "string list"
  el_text :: string
  el_visible :: bool
  el_attrs :: "(string \<times> string) list"

datatype event = Queried | Clicked string | Released

fun contains :: "string \<Rightarrow> string \<Rightarrow> bool" where
  "contains t [] = (t = [])"
| "contains t (c # cs) = (take (length t) (c # cs) = t \<or> contains t cs)"

fun matching :: "element list \<Rightarrow> pw_locator \<Rightarrow> element list" where
  "matching els (Locator s) = filter (\<lambda>e. s \<in> set (el_matches e)) els"
| "matching els (Filtered l (HasText t)) = filter (\<lambda>e. contains t (el_text e)) (matching els l)"
| "matching els (Filtered l (HasNotText t)) =
     filter (\<lambda>e. \<not> contains t (el_text e)) (matching els l)"
| "matching els (First l) = take 1 (matching els l)"

definition static_page :: "element list \<Rightarrow> event list Page" where
  "static_page els =
     \<lparr>pg_to_be_attached = (\<lambda>l t w.
        (if matching els l = [] then Inl AssertionError else Inr (), w @ [Queried])),
      pg_is_visible = (\<lambda>l t w.
        (Inr (case matching els l of [] \<Rightarrow> False | e # _ \<Rightarrow> el_visible e), w @ [Queried])),
      pg_get_attribute = (\<lambda>l a t w.
        (case matching els l of [] \<Rightarrow> Inl TimeoutError | e # _ \<Rightarrow> Inr (map_of (el_attrs e) a),
         w @ [Queried])),
      pg_inner_text = (\<lambda>l t w.
        (case matching els l of [] \<Rightarrow> Inl TimeoutError | e # _ \<Rightarrow> Inr (el_text e),
         w @ [Queried])),
      pg_all_inner_texts = (\<lambda>l w. (Inr (map el_text (matching els l)), w @ [Queried])),
      pg_wait_for = (\<lambda>l st t w.
        (if matching els l = [] then Inl TimeoutError else Inr (), w @ [Queried])),
      pg_count = (\<lambda>l w. (Inr (int (length (matching els l))), w @ [Queried])),
      pg_click = (\<lambda>l t w.
        (case matching els l of
           [] \<Rightarrow> (Inl TimeoutError, w @ [Queried])
         | e # _ \<Rightarrow> (Inr (), w @ [Clicked (el_text e)])))\<rparr>"

definition open_session :: "element list \<Rightarrow> event list BSCmfx" where
  "open_session els =
     \<lparr>camoufox_instance = Some \<lparr>aexit = (\<lambda>w. (Inr (), w @ [Released]))\<rparr>,
      browser = Some BrowserHandle,
      page = Some (static_page els)\<rparr>"

definition shop_page :: "element list" where
  "shop_page =
     [\<lparr>el_matches = [''button'', ''xpath=//button''], el_text = ''Add to cart'', el_visible = True,
       el_attrs = [(''class'', ''Primary'')]\<rparr>,
      \<lparr>el_matches = [''button'', ''xpath=//button''], el_text = ''Add to wishlist (sold out)'',
       el_visible = False, el_attrs = []\<rparr>,
      \<lparr>el_matches = [''button'', ''xpath=//button''], el_text = ''Add to wishlist'',
       el_visible = True, el_attrs = []\<rparr>]"

text \<open>
  A scripted driver answers the n-th lookup with \<open>found_at n\<close> (\<open>founds_at n\<close> for
  a list lookup) and a wait on condition \<open>c\<close> with \<open>waited c\<close>; the browser state
  counts the lookups and the waits made so far.
\<close>

record tally =
  lookups :: nat
  waits :: nat

definition scripted_driver ::
  "(nat \<Rightarrow> exn + tally WebElement) \<Rightarrow> (nat \<Rightarrow> exn + tally WebElement list)
   \<Rightarrow> (expected_condition \<Rightarrow> exn + unit) \<Rightarrow> tally BSWebDriver" where
  "scripted_driver found_at founds_at waited =
     \<lparr>driver =
        \<lparr>drv_find_element = (\<lambda>b v w. (found_at (lookups w), w\<lparr>lookups := Suc (lookups w)\<rparr>)),
         drv_find_elements = (\<lambda>b v w. (founds_at (lookups w), w\<lparr>lookups := Suc (lookups w)\<rparr>)),
         drv_wait_until = (\<lambda>t c w. (waited c, w\<lparr>waits := Suc (waits w)\<rparr>))\<rparr>\<rparr>"

definition static_element :: "string \<Rightarrow> bool \<Rightarrow> 'w WebElement" where
  "static_element t d = \<lparr>elem_text = (\<lambda>w. (Inr t, w)), elem_is_displayed = (\<lambda>w. (Inr d, w))\<rparr>"

text \<open>The driver of a page on which no element is ever found.\<close>

definition empty_page_driver :: "tally BSWebDriver" where
  "empty_page_driver =
     scripted_driver (\<lambda>n. Inl NoSuchElementException) (\<lambda>n. Inr []) (\<lambda>c. Inl TimeoutException)"

section \<open>Strings: splitting and joining\<close>

lemma split_on_no_sep: "sep \<notin> set s \<Longrightarrow> split_on sep s = [s]"
  by (induction s) auto

lemma split_on_append_sep:
  "sep \<notin> set s \<Longrightarrow> split_on sep (s @ sep # r) = s # split_on sep r"
  by (induction s) auto

lemma split_on_join:
  "\<forall>p \<in> set (x # xs). sep \<notin> set p \<Longrightarrow> split_on sep (join_str [sep] (x # xs)) = x # xs"
  by (induction xs arbitrary: x) (auto simp: split_on_no_sep split_on_append_sep)

lemma map_strip_filter:
  "map (\<lambda>ss. strip ss @ t) (filter (\<lambda>ss. strip ss \<noteq> []) xs) =
   map (\<lambda>ss. ss @ t) (filter (\<lambda>ss. ss \<noteq> []) (map strip xs))"
  by (induction xs) auto

section \<open>Locator derivation\<close>

text \<open>
  C1. A css parent value is a comma-separated list of pieces; the subselectors are the
  pieces with surrounding white space stripped, empty ones dropped. \<open>get_descendant\<close>
  rewrites each subselector \<open>ss\<close> as \<open>ss\<close>, a space and the child value, and joins the
  results with a comma and a space. Parent \<open>a, b\<close> with child \<open>c\<close> gives \<open>a c, b c\<close>.
  An xpath parent gives the parent value followed by the child value.
\<close>

theorem get_descendant_rewrites_subselectors:
  "(pieces \<noteq> [] \<and> (\<forall>p \<in> set pieces. CHR '','' \<notin> set p) \<longrightarrow>
      get_descendant (css (join_str '','' pieces)) other =
        Inr (css (join_str '', ''
          (map (\<lambda>ss. ss @ '' '' @ loc_value other)
               (filter (\<lambda>ss. ss \<noteq> []) (map strip pieces))))))
   \<and> get_descendant (css ''a, b'') (css ''c'') = Inr (css ''a c, b c'')
   \<and> get_descendant (xpath v) other = Inr (xpath (v @ loc_value other))"
proof (intro conjI impI)
  assume h: "pieces \<noteq> [] \<and> (\<forall>p \<in> set pieces. CHR '','' \<notin> set p)"
  then obtain x xs where p: "pieces = x # xs" by (cases pieces) auto
  with h have "split_on CHR '','' (join_str '','' pieces) = pieces"
    using split_on_join [of x xs "CHR '',''"] by simp
  then show "get_descendant (css (join_str '','' pieces)) other =
        Inr (css (join_str '', ''
          (map (\<lambda>ss. ss @ '' '' @ loc_value other)
               (filter (\<lambda>ss. ss \<noteq> []) (map strip pieces)))))"
    by (simp add: get_descendant_def css_def)
next
  show "get_descendant (css ''a, b'') (css ''c'') = Inr (css ''a c, b c'')"
    by (simp add: get_descendant_def css_def strip_def is_space_def)
next
  show "get_descendant (xpath v) other = Inr (xpath (v @ loc_value other))"
    by (simp add: get_descendant_def xpath_def)
qed

theorem get_descendant_rewrites_subselectors_witness:
  "[''div.a '', '' '', ''  p > b''] \<noteq> []
   \<and> CHR '','' \<notin> set ''div.a '' \<and> CHR '','' \<notin> set '' '' \<and> CHR '','' \<notin> set ''  p > b''
   \<and> get_descendant (css ''div.a , ,  p > b'') (id_locator ''span'') =
       Inr (css ''div.a span, p > b span'')"
  using get_descendant_rewrites_subselectors
    [of "[''div.a '', '' '', ''  p > b'']" "id_locator ''span''"]
  by (simp add: strip_def is_space_def id_locator_def)

text \<open>
  C2. For every integer \<open>i\<close>, \<open>get_nth_element\<close> on an xpath locator with value \<open>v\<close>
  gives the xpath value \<open>(v)[i]\<close>; \<open>//div\<close> and 3 give \<open>(//div)[3]\<close>. On a css
  locator it appends \<open>:nth-child(i)\<close> to every subselector of the comma-separated value.
\<close>

theorem get_nth_element_rewrites:
  "get_nth_element (xpath v) i = Inr (xpath (''('' @ v @ '')['' @ str_int i @ '']''))
   \<and> get_nth_element (xpath ''//div'') 3 = Inr (xpath ''(//div)[3]'')
   \<and> (pieces \<noteq> [] \<and> (\<forall>p \<in> set pieces. CHR '','' \<notin> set p) \<longrightarrow>
      get_nth_element (css (join_str '','' pieces)) i =
        Inr (css (join_str '', ''
          (map (\<lambda>ss. ss @ '':nth-child('' @ str_int i @ '')'')
               (filter (\<lambda>ss. ss \<noteq> []) (map strip pieces))))))"
proof (intro conjI impI)
  show "get_nth_element (xpath v) i = Inr (xpath (''('' @ v @ '')['' @ str_int i @ '']''))"
    by (simp add: get_nth_element_def xpath_def)
next
  show "get_nth_element (xpath ''//div'') 3 = Inr (xpath ''(//div)[3]'')"
    by (simp add: get_nth_element_def xpath_def str_int_def digit_char_def)
next
  assume h: "pieces \<noteq> [] \<and> (\<forall>p \<in> set pieces. CHR '','' \<notin> set p)"
  then obtain x xs where p: "pieces = x # xs" by (cases pieces) auto
  with h have "split_on CHR '','' (join_str '','' pieces) = pieces"
    using split_on_join [of x xs "CHR '',''"] by simp
  then show "get_nth_element (css (join_str '','' pieces)) i =
        Inr (css (join_str '', ''
          (map (\<lambda>ss. ss @ '':nth-child('' @ str_int i @ '')'')
               (filter (\<lambda>ss. ss \<noteq> []) (map strip pieces)))))"
    by (simp add: get_nth_element_def css_def map_strip_filter)
qed

theorem get_nth_element_rewrites_witness:
  "[''ul > li'', '' ol > li ''] \<noteq> []
   \<and> CHR '','' \<notin> set ''ul > li'' \<and> CHR '','' \<notin> set '' ol > li ''
   \<and> get_nth_element (css ''ul > li, ol > li '') (- 12) =
       Inr (css ''ul > li:nth-child(-12), ol > li:nth-child(-12)'')"
  using get_nth_element_rewrites [where pieces = "[''ul > li'', '' ol > li '']" and i = "- 12"]
  by (simp add: strip_def is_space_def str_int_def digit_char_def)

text \<open>
  C3. For each of the eight strategies, \<open>get_descendant\<close> and \<open>get_nth_element\<close> raise
  when the strategy of the receiver is neither css selector nor xpath, and otherwise
  return a locator of the receiver's strategy. Both are functions of their arguments:
  the source assigns to no field of the receiver.
\<close>

theorem derivation_strategy_gate:
  "(loc_by self \<noteq> CSS_SELECTOR \<and> loc_by self \<noteq> XPATH \<longrightarrow>
      get_descendant self other = Inl (Exception ''BSLocator Concatenation Error'')
      \<and> get_nth_element self i =
          Inl (Exception (''Error getting '' @ str_int i @ ''-th child of '' @ loc_value self)))
   \<and> (loc_by self = CSS_SELECTOR \<or> loc_by self = XPATH \<longrightarrow>
      (\<exists>l. get_descendant self other = Inr l \<and> loc_by l = loc_by self)
      \<and> (\<exists>l. get_nth_element self i = Inr l \<and> loc_by l = loc_by self))"
  by (auto simp: get_descendant_def get_nth_element_def css_def xpath_def Let_def)

theorem derivation_strategy_gate_witness:
  "loc_by (link_text ''Next'') \<noteq> CSS_SELECTOR \<and> loc_by (link_text ''Next'') \<noteq> XPATH
   \<and> get_descendant (link_text ''Next'') (css ''a'') =
       Inl (Exception ''BSLocator Concatenation Error'')
   \<and> get_nth_element (link_text ''Next'') 2 = Inl (Exception ''Error getting 2-th child of Next'')
   \<and> loc_by (css ''ul'') = CSS_SELECTOR
   \<and> (\<exists>l. get_descendant (css ''ul'') (css ''li'') = Inr l \<and> loc_by l = CSS_SELECTOR)
   \<and> (\<exists>l. get_nth_element (css ''ul'') 2 = Inr l \<and> loc_by l = CSS_SELECTOR)"
  using derivation_strategy_gate [of "link_text ''Next''" "css ''a''" 2]
        derivation_strategy_gate [of "css ''ul''" "css ''li''" 2]
  by (simp add: link_text_def css_def str_int_def digit_char_def)

section \<open>Resolving a locator for Playwright\<close>

lemma get_pw_locator_css:
  "loc_by locator = CSS_SELECTOR \<Longrightarrow> get_pw_locator locator = Inr (loc_value locator)"
  by (simp add: get_pw_locator_def)

lemma get_pw_locator_xpath:
  "loc_by locator = XPATH \<Longrightarrow> get_pw_locator locator = Inr (''xpath='' @ loc_value locator)"
  by (simp add: get_pw_locator_def)

lemma get_pw_locator_unsupported:
  "loc_by locator \<noteq> CSS_SELECTOR \<Longrightarrow> loc_by locator \<noteq> XPATH \<Longrightarrow>
   get_pw_locator locator =
     Inl (ValueError (''Tipo de selector no v'' @ [CHR 0xE1] @ ''lido: '' @ by_str (loc_by locator)))"
  by (cases "loc_by locator") (simp_all add: get_pw_locator_def)

lemma page_locator_supported:
  "page self = Some pg \<Longrightarrow>
   loc_by locator = CSS_SELECTOR \<and> sel = loc_value locator
     \<or> loc_by locator = XPATH \<and> sel = ''xpath='' @ loc_value locator \<Longrightarrow>
   page_locator self locator = Inr (pg, Locator sel)"
  by (auto simp: page_locator_def get_pw_locator_css get_pw_locator_xpath)

lemma page_locator_unsupported:
  "page self = Some pg \<Longrightarrow> loc_by locator \<noteq> CSS_SELECTOR \<Longrightarrow> loc_by locator \<noteq> XPATH \<Longrightarrow>
   page_locator self locator =
     Inl (ValueError (''Tipo de selector no v'' @ [CHR 0xE1] @ ''lido: '' @ by_str (loc_by locator)))"
  by (simp add: page_locator_def get_pw_locator_unsupported)

lemma shop_page_session: "page (open_session shop_page) = Some (static_page shop_page)"
  by (simp add: open_session_def)

section \<open>Presence and visibility probes\<close>

text \<open>
  C4, as stated, fails: on an initialised Playwright session the presence probe raises
  \<open>ValueError\<close> for a locator by id.
\<close>

theorem probes_counterexample:
  "BSCmfx_is_element_present (open_session shop_page) (id_locator ''cart'') 10 [] =
     (Inl (ValueError (''Tipo de selector no v'' @ [CHR 0xE1] @ ''lido: id'')), [])"
  by (simp add: BSCmfx_is_element_present_def page_locator_def get_pw_locator_def
      open_session_def id_locator_def)

text \<open>
  C4, amended. On an initialised Playwright session and a css-selector or xpath locator,
  \<open>is_element_present\<close> returns true when the engine's attached expectation holds and
  false when it raises \<open>AssertionError\<close>; \<open>is_element_visible\<close> returns the engine's
  answer, and false when the engine raises \<open>TimeoutError\<close>. For a locator of any other
  strategy both raise \<open>ValueError\<close> before the engine is called. On the Selenium wrapper,
  for a locator of any strategy, \<open>is_element_present\<close> returns true when the presence wait
  returns and false when it raises \<open>TimeoutException\<close>; \<open>is_element_displayed\<close> returns
  false when the presence wait times out, and the \<open>is_displayed()\<close> answer of the element
  that the lookup returns when the wait succeeds.
\<close>

theorem probes_outcomes:
  "(page self = Some pg
      \<and> (loc_by locator = CSS_SELECTOR \<and> sel = loc_value locator
           \<or> loc_by locator = XPATH \<and> sel = ''xpath='' @ loc_value locator)
    \<longrightarrow>
      (pg_to_be_attached pg (First (Locator sel)) (timeout * 1000) w = (r, w')
         \<and> (r = Inr () \<or> r = Inl AssertionError)
       \<longrightarrow> BSCmfx_is_element_present self locator timeout w = (Inr (r = Inr ()), w'))
      \<and> (pg_is_visible pg (First (Locator sel)) (timeout * 1000) w = (v, w')
         \<and> (v = Inr True \<or> v = Inr False \<or> v = Inl TimeoutError)
       \<longrightarrow> BSCmfx_is_element_visible self locator timeout w = (Inr (v = Inr True), w')))
   \<and> (page self = Some pg \<and> loc_by locator \<noteq> CSS_SELECTOR \<and> loc_by locator \<noteq> XPATH
    \<longrightarrow>
      BSCmfx_is_element_present self locator timeout w =
        (Inl (ValueError (''Tipo de selector no v'' @ [CHR 0xE1] @ ''lido: ''
                          @ by_str (loc_by locator))), w)
      \<and> BSCmfx_is_element_visible self locator timeout w =
        (Inl (ValueError (''Tipo de selector no v'' @ [CHR 0xE1] @ ''lido: ''
                          @ by_str (loc_by locator))), w))
   \<and> (drv_wait_until (driver wd) timeout
         (presence_of_element_located (loc_by locator, loc_value locator)) s = (p, s')
    \<longrightarrow>
      (p = Inr () \<or> p = Inl TimeoutException
       \<longrightarrow> BSWebDriver_is_element_present wd locator timeout s = (Inr (p = Inr ()), s'))
      \<and> (p = Inl TimeoutException
       \<longrightarrow> BSWebDriver_is_element_displayed wd locator timeout s = (Inr False, s'))
      \<and> (p = Inr ()
           \<and> drv_find_element (driver wd) (loc_by locator) (loc_value locator) s' = (Inr el, s'')
       \<longrightarrow> BSWebDriver_is_element_displayed wd locator timeout s = elem_is_displayed el s''))"
proof (intro conjI impI)
  assume a: "page self = Some pg
      \<and> (loc_by locator = CSS_SELECTOR \<and> sel = loc_value locator
           \<or> loc_by locator = XPATH \<and> sel = ''xpath='' @ loc_value locator)"
  then have pl: "page_locator self locator = Inr (pg, Locator sel)"
    using page_locator_supported [of self pg locator sel] by blast
  {
    assume "pg_to_be_attached pg (First (Locator sel)) (timeout * 1000) w = (r, w')
         \<and> (r = Inr () \<or> r = Inl AssertionError)"
    then show "BSCmfx_is_element_present self locator timeout w = (Inr (r = Inr ()), w')"
      by (auto simp: BSCmfx_is_element_present_def pl)
  }
  {
    assume "pg_is_visible pg (First (Locator sel)) (timeout * 1000) w = (v, w')
         \<and> (v = Inr True \<or> v = Inr False \<or> v = Inl TimeoutError)"
    then show "BSCmfx_is_element_visible self locator timeout w = (Inr (v = Inr True), w')"
      by (auto simp: BSCmfx_is_element_visible_def pl)
  }
next
  assume a: "page self = Some pg \<and> loc_by locator \<noteq> CSS_SELECTOR \<and> loc_by locator \<noteq> XPATH"
  then have pl: "page_locator self locator =
     Inl (ValueError (''Tipo de selector no v'' @ [CHR 0xE1] @ ''lido: '' @ by_str (loc_by locator)))"
    using page_locator_unsupported [of self pg locator] by blast
  show "BSCmfx_is_element_present self locator timeout w =
        (Inl (ValueError (''Tipo de selector no v'' @ [CHR 0xE1] @ ''lido: ''
                          @ by_str (loc_by locator))), w)"
    by (simp add: BSCmfx_is_element_present_def pl)
  show "BSCmfx_is_element_visible self locator timeout w =
        (Inl (ValueError (''Tipo de selector no v'' @ [CHR 0xE1] @ ''lido: ''
                          @ by_str (loc_by locator))), w)"
    by (simp add: BSCmfx_is_element_visible_def pl)
next
  assume d: "drv_wait_until (driver wd) timeout
         (presence_of_element_located (loc_by locator, loc_value locator)) s = (p, s')"
  {
    assume "p = Inr () \<or> p = Inl TimeoutException"
    with d show "BSWebDriver_is_element_present wd locator timeout s = (Inr (p = Inr ()), s')"
      by (auto simp: BSWebDriver_is_element_present_def as_tuple_def)
  }
  {
    assume "p = Inl TimeoutException"
    with d show "BSWebDriver_is_element_displayed wd locator timeout s = (Inr False, s')"
      by (simp add: BSWebDriver_is_element_displayed_def BSWebDriver_is_element_present_def
          as_tuple_def)
  }
  {
    assume "p = Inr ()
           \<and> drv_find_element (driver wd) (loc_by locator) (loc_value locator) s' = (Inr el, s'')"
    with d show "BSWebDriver_is_element_displayed wd locator timeout s = elem_is_displayed el s''"
      by (simp add: BSWebDriver_is_element_displayed_def BSWebDriver_is_element_present_def
          as_tuple_def)
  }
qed

theorem probes_outcomes_witness:
  "BSCmfx_is_element_present (open_session shop_page) (css ''button'') 10 [] = (Inr True, [Queried])
   \<and> BSCmfx_is_element_present (open_session shop_page) (xpath ''//a'') 10 [] = (Inr False, [Queried])
   \<and> BSCmfx_is_element_visible (open_session shop_page) (css ''button'') 10 [] = (Inr True, [Queried])
   \<and> BSCmfx_is_element_visible (open_session shop_page) (name_locator ''q'') 10 [] =
        (Inl (ValueError (''Tipo de selector no v'' @ [CHR 0xE1] @ ''lido: name'')), [])
   \<and> BSWebDriver_is_element_present empty_page_driver (id_locator ''cart'') 10
        \<lparr>lookups = 0, waits = 0\<rparr> = (Inr False, \<lparr>lookups = 0, waits = 1\<rparr>)
   \<and> BSWebDriver_is_element_displayed empty_page_driver (id_locator ''cart'') 10
        \<lparr>lookups = 0, waits = 0\<rparr> = (Inr False, \<lparr>lookups = 0, waits = 1\<rparr>)
   \<and> BSWebDriver_is_element_displayed
        (scripted_driver (\<lambda>n. Inr (static_element ''Add to cart'' True)) (\<lambda>n. Inr [])
           (\<lambda>c. Inr ()))
        (id_locator ''cart'') 10 \<lparr>lookups = 0, waits = 0\<rparr> = (Inr True, \<lparr>lookups = 1, waits = 1\<rparr>)"
proof -
  have a1: "pg_to_be_attached (static_page shop_page) (First (Locator ''button'')) (10 * 1000) []
              = (Inr (), [Queried])"
    by (simp add: static_page_def shop_page_def)
  have a2: "pg_to_be_attached (static_page shop_page) (First (Locator ''xpath=//a'')) (10 * 1000) []
              = (Inl AssertionError, [Queried])"
    by (simp add: static_page_def shop_page_def)
  have v1: "pg_is_visible (static_page shop_page) (First (Locator ''button'')) (10 * 1000) []
              = (Inr True, [Queried])"
    by (simp add: static_page_def shop_page_def)
  have p1: "drv_wait_until (driver empty_page_driver) 10
              (presence_of_element_located (loc_by (id_locator ''cart''), loc_value (id_locator ''cart'')))
              \<lparr>lookups = 0, waits = 0\<rparr> = (Inl TimeoutException, \<lparr>lookups = 0, waits = 1\<rparr>)"
    by (simp add: empty_page_driver_def scripted_driver_def)
  let ?d = "scripted_driver (\<lambda>n. Inr (static_element ''Add to cart'' True)) (\<lambda>n. Inr [])
           (\<lambda>c. Inr ())"
  have p2: "drv_wait_until (driver ?d) 10
              (presence_of_element_located (loc_by (id_locator ''cart''), loc_value (id_locator ''cart'')))
              \<lparr>lookups = 0, waits = 0\<rparr> = (Inr (), \<lparr>lookups = 0, waits = 1\<rparr>)"
    by (simp add: scripted_driver_def)
  have f2: "drv_find_element (driver ?d) (loc_by (id_locator ''cart'')) (loc_value (id_locator ''cart''))
              \<lparr>lookups = 0, waits = 1\<rparr> = (Inr (static_element ''Add to cart'' True), \<lparr>lookups = 1, waits = 1\<rparr>)"
    by (simp add: scripted_driver_def)
  have e2: "elem_is_displayed (static_element ''Add to cart'' True) \<lparr>lookups = 1, waits = 1\<rparr>
              = (Inr True, \<lparr>lookups = 1, waits = 1\<rparr>)"
    by (simp add: static_element_def)
  note t1 = probes_outcomes [where self = "open_session shop_page" and pg = "static_page shop_page"
      and locator = "css ''button''" and sel = "''button''" and timeout = 10 and w = "[]"
      and r = "Inr ()" and w' = "[Queried]" and v = "Inr True", THEN conjunct1]
  note t2 = probes_outcomes [where self = "open_session shop_page" and pg = "static_page shop_page"
      and locator = "xpath ''//a''" and sel = "''xpath=//a''" and timeout = 10 and w = "[]"
      and r = "Inl AssertionError" and w' = "[Queried]", THEN conjunct1]
  note t3 = probes_outcomes [where self = "open_session shop_page" and pg = "static_page shop_page"
      and locator = "name_locator ''q''" and timeout = 10 and w = "[]", THEN conjunct2, THEN conjunct1]
  note t4 = probes_outcomes [where wd = empty_page_driver and locator = "id_locator ''cart''"
      and timeout = 10 and s = "\<lparr>lookups = 0, waits = 0\<rparr>" and p = "Inl TimeoutException"
      and s' = "\<lparr>lookups = 0, waits = 1\<rparr>", THEN conjunct2, THEN conjunct2]
  note t5 = probes_outcomes [where wd = ?d and locator = "id_locator ''cart''"
      and timeout = 10 and s = "\<lparr>lookups = 0, waits = 0\<rparr>" and p = "Inr ()"
      and s' = "\<lparr>lookups = 0, waits = 1\<rparr>" and el = "static_element ''Add to cart'' True"
      and s'' = "\<lparr>lookups = 1, waits = 1\<rparr>", THEN conjunct2, THEN conjunct2]
  have c1: "BSCmfx_is_element_present (open_session shop_page) (css ''button'') 10 [] = (Inr True, [Queried])"
    using t1 shop_page_session a1 by (simp add: css_def)
  have c2: "BSCmfx_is_element_present (open_session shop_page) (xpath ''//a'') 10 [] = (Inr False, [Queried])"
    using t2 shop_page_session a2 by (simp add: xpath_def)
  have c3: "BSCmfx_is_element_visible (open_session shop_page) (css ''button'') 10 [] = (Inr True, [Queried])"
    using t1 shop_page_session v1 by (simp add: css_def)
  have c4: "BSCmfx_is_element_visible (open_session shop_page) (name_locator ''q'') 10 [] =
        (Inl (ValueError (''Tipo de selector no v'' @ [CHR 0xE1] @ ''lido: name'')), [])"
    using t3 shop_page_session by (simp add: name_locator_def)
  have c5: "BSWebDriver_is_element_present empty_page_driver (id_locator ''cart'') 10
        \<lparr>lookups = 0, waits = 0\<rparr> = (Inr False, \<lparr>lookups = 0, waits = 1\<rparr>)"
    using t4 p1 by simp
  have c6: "BSWebDriver_is_element_displayed empty_page_driver (id_locator ''cart'') 10
        \<lparr>lookups = 0, waits = 0\<rparr> = (Inr False, \<lparr>lookups = 0, waits = 1\<rparr>)"
    using t4 p1 by simp
  have c7: "BSWebDriver_is_element_displayed ?d
        (id_locator ''cart'') 10 \<lparr>lookups = 0, waits = 0\<rparr> = (Inr True, \<lparr>lookups = 1, waits = 1\<rparr>)"
    using t5 p2 f2 e2 by simp
  from c1 c2 c3 c4 c5 c6 c7 show ?thesis by blast
qed

section \<open>Text getters and counts\<close>

text \<open>
  C5, as stated, fails. With the raise flag false, the Playwright getter raises
  \<open>ValueError\<close> for a locator by id, and the Selenium getter on a page where the element
  never appears raises \<open>NoSuchElementException\<close>: the visibility wait swallows its
  timeout, and the lookup that follows raises an exception that the handler for
  \<open>TimeoutException\<close> does not catch.
\<close>

theorem text_getter_counterexample:
  "BSCmfx_get_element_text (open_session shop_page) (id_locator ''price'') 10 False [] =
     (Inl (ValueError (''Tipo de selector no v'' @ [CHR 0xE1] @ ''lido: id'')), [])
   \<and> BSWebDriver_get_text empty_page_driver (css ''span.price'') False 10
       \<lparr>lookups = 0, waits = 0\<rparr> = (Inl NoSuchElementException, \<lparr>lookups = 1, waits = 1\<rparr>)"
  by (simp add: BSCmfx_get_element_text_def page_locator_def get_pw_locator_def
      open_session_def id_locator_def BSWebDriver_get_text_def
      BSWebDriver_wait_element_to_be_visible_def empty_page_driver_def scripted_driver_def)

text \<open>
  C5, amended. On an initialised Playwright session and a css-selector or xpath locator,
  when the engine's text lookup times out, \<open>get_element_text\<close> returns \<open>None\<close> with the
  raise flag false and raises that \<open>TimeoutError\<close> with the flag true; for a locator of
  any other strategy it raises \<open>ValueError\<close>, whatever the flag. On the Selenium wrapper,
  \<open>get_text\<close> with the raise flag true raises \<open>TimeoutException\<close> when the visibility
  wait times out.
\<close>

theorem text_getter_outcomes:
  "(page self = Some pg
      \<and> (loc_by locator = CSS_SELECTOR \<and> sel = loc_value locator
           \<or> loc_by locator = XPATH \<and> sel = ''xpath='' @ loc_value locator)
      \<and> pg_inner_text pg (First (Locator sel)) (timeout * 1000) w = (Inl TimeoutError, w')
    \<longrightarrow>
      BSCmfx_get_element_text self locator timeout False w = (Inr None, w')
      \<and> BSCmfx_get_element_text self locator timeout True w = (Inl TimeoutError, w'))
   \<and> (page self = Some pg \<and> loc_by locator \<noteq> CSS_SELECTOR \<and> loc_by locator \<noteq> XPATH
    \<longrightarrow>
      BSCmfx_get_element_text self locator timeout raise_exception w =
        (Inl (ValueError (''Tipo de selector no v'' @ [CHR 0xE1] @ ''lido: ''
                          @ by_str (loc_by locator))), w))
   \<and> (drv_wait_until (driver wd) timeout
         (visibility_of_element_located (loc_by locator, loc_value locator)) s
         = (Inl TimeoutException, s')
    \<longrightarrow>
      BSWebDriver_get_text wd locator True timeout s = (Inl TimeoutException, s'))"
proof (intro conjI impI)
  assume a: "page self = Some pg
      \<and> (loc_by locator = CSS_SELECTOR \<and> sel = loc_value locator
           \<or> loc_by locator = XPATH \<and> sel = ''xpath='' @ loc_value locator)
      \<and> pg_inner_text pg (First (Locator sel)) (timeout * 1000) w = (Inl TimeoutError, w')"
  then have pl: "page_locator self locator = Inr (pg, Locator sel)"
    using page_locator_supported [of self pg locator sel] by blast
  from a show "BSCmfx_get_element_text self locator timeout False w = (Inr None, w')"
    by (simp add: BSCmfx_get_element_text_def pl)
  from a show "BSCmfx_get_element_text self locator timeout True w = (Inl TimeoutError, w')"
    by (simp add: BSCmfx_get_element_text_def pl)
next
  assume "page self = Some pg \<and> loc_by locator \<noteq> CSS_SELECTOR \<and> loc_by locator \<noteq> XPATH"
  then have pl: "page_locator self locator =
     Inl (ValueError (''Tipo de selector no v'' @ [CHR 0xE1] @ ''lido: '' @ by_str (loc_by locator)))"
    using page_locator_unsupported [of self pg locator] by blast
  show "BSCmfx_get_element_text self locator timeout raise_exception w =
        (Inl (ValueError (''Tipo de selector no v'' @ [CHR 0xE1] @ ''lido: ''
                          @ by_str (loc_by locator))), w)"
    by (simp add: BSCmfx_get_element_text_def pl)
next
  assume "drv_wait_until (driver wd) timeout
         (visibility_of_element_located (loc_by locator, loc_value locator)) s
         = (Inl TimeoutException, s')"
  then show "BSWebDriver_get_text wd locator True timeout s = (Inl TimeoutException, s')"
    by (simp add: BSWebDriver_get_text_def BSWebDriver_wait_element_to_be_visible_def
        as_tuple_def)
qed

theorem text_getter_outcomes_witness:
  "BSCmfx_get_element_text (open_session shop_page) (css ''span.price'') 10 False [] =
     (Inr None, [Queried])
   \<and> BSCmfx_get_element_text (open_session shop_page) (css ''span.price'') 10 True [] =
     (Inl TimeoutError, [Queried])
   \<and> BSCmfx_get_element_text (open_session shop_page) (tag_name ''span'') 10 False [] =
     (Inl (ValueError (''Tipo de selector no v'' @ [CHR 0xE1] @ ''lido: tag name'')), [])
   \<and> BSWebDriver_get_text empty_page_driver (css ''span.price'') True 10
       \<lparr>lookups = 0, waits = 0\<rparr> = (Inl TimeoutException, \<lparr>lookups = 0, waits = 1\<rparr>)"
proof -
  have i: "pg_inner_text (static_page shop_page) (First (Locator ''span.price'')) (10 * 1000) []
             = (Inl TimeoutError, [Queried])"
    by (simp add: static_page_def shop_page_def)
  have v: "drv_wait_until (driver empty_page_driver) 10
             (visibility_of_element_located
                (loc_by (css ''span.price''), loc_value (css ''span.price'')))
             \<lparr>lookups = 0, waits = 0\<rparr> = (Inl TimeoutException, \<lparr>lookups = 0, waits = 1\<rparr>)"
    by (simp add: empty_page_driver_def scripted_driver_def)
  note t1 = text_getter_outcomes [where self = "open_session shop_page"
      and pg = "static_page shop_page" and locator = "css ''span.price''"
      and sel = "''span.price''" and timeout = 10 and w = "[]" and w' = "[Queried]",
      THEN conjunct1]
  note t2 = text_getter_outcomes [where self = "open_session shop_page"
      and pg = "static_page shop_page" and locator = "tag_name ''span''"
      and timeout = 10 and w = "[]" and raise_exception = False,
      THEN conjunct2, THEN conjunct1]
  note t3 = text_getter_outcomes [where wd = empty_page_driver
      and locator = "css ''span.price''" and timeout = 10
      and s = "\<lparr>lookups = 0, waits = 0\<rparr>" and s' = "\<lparr>lookups = 0, waits = 1\<rparr>",
      THEN conjunct2, THEN conjunct2]
  have c1: "BSCmfx_get_element_text (open_session shop_page) (css ''span.price'') 10 False [] =
     (Inr None, [Queried])
   \<and> BSCmfx_get_element_text (open_session shop_page) (css ''span.price'') 10 True [] =
     (Inl TimeoutError, [Queried])"
    using t1 shop_page_session i by (simp add: css_def)
  have c2: "BSCmfx_get_element_text (open_session shop_page) (tag_name ''span'') 10 False [] =
     (Inl (ValueError (''Tipo de selector no v'' @ [CHR 0xE1] @ ''lido: tag name'')), [])"
    using t2 shop_page_session by (simp add: tag_name_def)
  have c3: "BSWebDriver_get_text empty_page_driver (css ''span.price'') True 10
       \<lparr>lookups = 0, waits = 0\<rparr> = (Inl TimeoutException, \<lparr>lookups = 0, waits = 1\<rparr>)"
    using t3 v by simp
  from c1 c2 c3 show ?thesis by blast
qed

text \<open>
  C7, as stated, fails: for a locator by class name, which matches no element of the
  page, \<open>get_elements_count\<close> raises \<open>ValueError\<close>.
\<close>

theorem zero_match_counterexample:
  "BSCmfx_get_elements_count (open_session shop_page) (class_name ''missing'') 10 [] =
     (Inl (ValueError (''Tipo de selector no v'' @ [CHR 0xE1] @ ''lido: class name'')), [])"
  by (simp add: BSCmfx_get_elements_count_def page_locator_def get_pw_locator_def
      open_session_def class_name_def)

text \<open>
  C7, amended. On an initialised session and a css-selector or xpath locator that matches
  no element (the engine's attached expectation raises \<open>AssertionError\<close>, its wait for
  the attached state raises \<open>TimeoutError\<close>), \<open>get_elements_text\<close> returns the empty list
  and \<open>get_elements_count\<close> returns 0. For a locator of any other strategy both raise
  \<open>ValueError\<close>.
\<close>

theorem zero_match_outcomes:
  "(page self = Some pg
      \<and> (loc_by locator = CSS_SELECTOR \<and> sel = loc_value locator
           \<or> loc_by locator = XPATH \<and> sel = ''xpath='' @ loc_value locator)
    \<longrightarrow>
      (pg_to_be_attached pg (First (Locator sel)) (timeout * 1000) w = (Inl AssertionError, w')
       \<longrightarrow> BSCmfx_get_elements_text self locator timeout w = (Inr [], w'))
      \<and> (pg_wait_for pg (First (Locator sel)) ''attached'' (timeout * 1000) w
            = (Inl TimeoutError, w')
       \<longrightarrow> BSCmfx_get_elements_count self locator timeout w = (Inr 0, w')))
   \<and> (page self = Some pg \<and> loc_by locator \<noteq> CSS_SELECTOR \<and> loc_by locator \<noteq> XPATH
    \<longrightarrow>
      BSCmfx_get_elements_text self locator timeout w =
        (Inl (ValueError (''Tipo de selector no v'' @ [CHR 0xE1] @ ''lido: ''
                          @ by_str (loc_by locator))), w)
      \<and> BSCmfx_get_elements_count self locator timeout w =
        (Inl (ValueError (''Tipo de selector no v'' @ [CHR 0xE1] @ ''lido: ''
                          @ by_str (loc_by locator))), w))"
proof (intro conjI impI)
  assume a: "page self = Some pg
      \<and> (loc_by locator = CSS_SELECTOR \<and> sel = loc_value locator
           \<or> loc_by locator = XPATH \<and> sel = ''xpath='' @ loc_value locator)"
  then have pl: "page_locator self locator = Inr (pg, Locator sel)"
    using page_locator_supported [of self pg locator sel] by blast
  {
    assume "pg_to_be_attached pg (First (Locator sel)) (timeout * 1000) w = (Inl AssertionError, w')"
    then show "BSCmfx_get_elements_text self locator timeout w = (Inr [], w')"
      by (simp add: BSCmfx_get_elements_text_def BSCmfx_wait_element_to_be_present_def pl)
  }
  {
    assume "pg_wait_for pg (First (Locator sel)) ''attached'' (timeout * 1000) w
            = (Inl TimeoutError, w')"
    then show "BSCmfx_get_elements_count self locator timeout w = (Inr 0, w')"
      by (simp add: BSCmfx_get_elements_count_def pl)
  }
next
  assume "page self = Some pg \<and> loc_by locator \<noteq> CSS_SELECTOR \<and> loc_by locator \<noteq> XPATH"
  then have pl: "page_locator self locator =
     Inl (ValueError (''Tipo de selector no v'' @ [CHR 0xE1] @ ''lido: '' @ by_str (loc_by locator)))"
    using page_locator_unsupported [of self pg locator] by blast
  show "BSCmfx_get_elements_text self locator timeout w =
        (Inl (ValueError (''Tipo de selector no v'' @ [CHR 0xE1] @ ''lido: ''
                          @ by_str (loc_by locator))), w)"
    by (simp add: BSCmfx_get_elements_text_def BSCmfx_wait_element_to_be_present_def pl)
  show "BSCmfx_get_elements_count self locator timeout w =
        (Inl (ValueError (''Tipo de selector no v'' @ [CHR 0xE1] @ ''lido: ''
                          @ by_str (loc_by locator))), w)"
    by (simp add: BSCmfx_get_elements_count_def pl)
qed

theorem zero_match_outcomes_witness:
  "BSCmfx_get_elements_text (open_session shop_page) (css ''li.review'') 10 [] = (Inr [], [Queried])
   \<and> BSCmfx_get_elements_count (open_session shop_page) (xpath ''//li'') 10 [] = (Inr 0, [Queried])
   \<and> BSCmfx_get_elements_text (open_session shop_page) (link_text ''Reviews'') 10 [] =
       (Inl (ValueError (''Tipo de selector no v'' @ [CHR 0xE1] @ ''lido: link text'')), [])"
proof -
  have a: "pg_to_be_attached (static_page shop_page) (First (Locator ''li.review'')) (10 * 1000) []
             = (Inl AssertionError, [Queried])"
    by (simp add: static_page_def shop_page_def)
  have b: "pg_wait_for (static_page shop_page) (First (Locator ''xpath=//li'')) ''attached''
             (10 * 1000) [] = (Inl TimeoutError, [Queried])"
    by (simp add: static_page_def shop_page_def)
  note t1 = zero_match_outcomes [where self = "open_session shop_page"
      and pg = "static_page shop_page" and locator = "css ''li.review''"
      and sel = "''li.review''" and timeout = 10 and w = "[]" and w' = "[Queried]",
      THEN conjunct1]
  note t2 = zero_match_outcomes [where self = "open_session shop_page"
      and pg = "static_page shop_page" and locator = "xpath ''//li''"
      and sel = "''xpath=//li''" and timeout = 10 and w = "[]" and w' = "[Queried]",
      THEN conjunct1]
  note t3 = zero_match_outcomes [where self = "open_session shop_page"
      and pg = "static_page shop_page" and locator = "link_text ''Reviews''"
      and timeout = 10 and w = "[]", THEN conjunct2]
  have c1: "BSCmfx_get_elements_text (open_session shop_page) (css ''li.review'') 10 [] = (Inr [], [Queried])"
    using t1 shop_page_session a by (simp add: css_def)
  have c2: "BSCmfx_get_elements_count (open_session shop_page) (xpath ''//li'') 10 [] = (Inr 0, [Queried])"
    using t2 shop_page_session b by (simp add: xpath_def)
  have c3: "BSCmfx_get_elements_text (open_session shop_page) (link_text ''Reviews'') 10 [] =
       (Inl (ValueError (''Tipo de selector no v'' @ [CHR 0xE1] @ ''lido: link text'')), [])"
    using t3 shop_page_session by (simp add: link_text_def)
  from c1 c2 c3 show ?thesis by blast
qed

section \<open>Clicking by partial texts\<close>

lemma has_text_filters:
  "foldl (\<lambda>l pt. locator_filter l (HasText pt)) l pts =
   foldl Filtered l (map HasText (filter (\<lambda>t. t \<noteq> []) pts))"
  by (induction pts arbitrary: l) auto

lemma has_not_text_filters:
  "foldl (\<lambda>l pt. locator_filter l (HasNotText pt)) l pts =
   foldl Filtered l (map HasNotText (filter (\<lambda>t. t \<noteq> []) pts))"
  by (induction pts arbitrary: l) auto

lemma partial_text_target:
  "foldl (\<lambda>l pt. locator_filter l (HasNotText pt))
     (foldl (\<lambda>l pt. locator_filter l (HasText pt)) l inc) exc =
   foldl Filtered l (map HasText (filter (\<lambda>t. t \<noteq> []) inc)
                      @ map HasNotText (filter (\<lambda>t. t \<noteq> []) exc))"
  by (simp only: has_text_filters has_not_text_filters foldl_append)

text \<open>
  C6, as stated, fails twice. When no element matches the base locator, so that no
  element satisfies the filter, the operation raises \<open>AssertionError\<close> instead of
  returning false: the presence wait on the base locator stands before the \<open>try\<close>. And
  with the empty string among the exclude texts, which every element contains, it clicks
  the first button and returns true: an empty text adds no filter.
\<close>

theorem click_by_partial_texts_counterexample:
  "BSCmfx_click_element_by_partial_texts (open_session shop_page) (css ''a.buy'')
     [''Add''] (Some [''sold'']) 10 [] = (Inl AssertionError, [Queried])
   \<and> BSCmfx_click_element_by_partial_texts (open_session shop_page) (css ''button'')
     [''Add''] (Some ['''']) 10 [] = (Inr True, [Queried, Clicked ''Add to cart''])"
  by (simp add: BSCmfx_click_element_by_partial_texts_def BSCmfx_wait_element_to_be_present_def
      page_locator_def get_pw_locator_def open_session_def css_def static_page_def
      shop_page_def)

text \<open>
  C6, amended. On an initialised session and a css-selector or xpath base locator, the
  operation first waits for the base locator and raises the \<open>AssertionError\<close> of that
  wait. Otherwise it issues one click on the target locator: the first match of the base
  locator narrowed by a has-text filter for each non-empty include text, in order, and
  then a has-not-text filter for each non-empty exclude text. It returns true when the
  click returns and false when the click raises \<open>TimeoutError\<close>. For a locator of any
  other strategy it raises \<open>ValueError\<close>.
\<close>

theorem click_by_partial_texts_outcomes:
  "(page self = Some pg
      \<and> (loc_by locator = CSS_SELECTOR \<and> sel = loc_value locator
           \<or> loc_by locator = XPATH \<and> sel = ''xpath='' @ loc_value locator)
      \<and> exc = (case excluded of None \<Rightarrow> [] | Some pts \<Rightarrow> pts)
      \<and> target = First (foldl Filtered (Locator sel)
                          (map HasText (filter (\<lambda>t. t \<noteq> []) inc)
                           @ map HasNotText (filter (\<lambda>t. t \<noteq> []) exc)))
    \<longrightarrow>
      (pg_to_be_attached pg (First (Locator sel)) (timeout * 1000) w = (Inr (), wa)
          \<longrightarrow>
            (pg_click pg target (timeout * 1000) wa = (Inr (), wb)
             \<longrightarrow> BSCmfx_click_element_by_partial_texts self locator inc excluded timeout w
                   = (Inr True, wb))
            \<and> (pg_click pg target (timeout * 1000) wa = (Inl TimeoutError, wb)
             \<longrightarrow> BSCmfx_click_element_by_partial_texts self locator inc excluded timeout w
                   = (Inr False, wb)))
      \<and> (pg_to_be_attached pg (First (Locator sel)) (timeout * 1000) w = (Inl AssertionError, wa)
          \<longrightarrow> BSCmfx_click_element_by_partial_texts self locator inc excluded timeout w
                = (Inl AssertionError, wa)))
   \<and> (page self = Some pg \<and> loc_by locator \<noteq> CSS_SELECTOR \<and> loc_by locator \<noteq> XPATH
    \<longrightarrow>
      BSCmfx_click_element_by_partial_texts self locator inc excluded timeout w =
        (Inl (ValueError (''Tipo de selector no v'' @ [CHR 0xE1] @ ''lido: ''
                          @ by_str (loc_by locator))), w))"
proof (intro conjI impI)
  assume a: "page self = Some pg
      \<and> (loc_by locator = CSS_SELECTOR \<and> sel = loc_value locator
           \<or> loc_by locator = XPATH \<and> sel = ''xpath='' @ loc_value locator)
      \<and> exc = (case excluded of None \<Rightarrow> [] | Some pts \<Rightarrow> pts)
      \<and> target = First (foldl Filtered (Locator sel)
                          (map HasText (filter (\<lambda>t. t \<noteq> []) inc)
                           @ map HasNotText (filter (\<lambda>t. t \<noteq> []) exc)))"
  then have pl: "page_locator self locator = Inr (pg, Locator sel)"
    using page_locator_supported [of self pg locator sel] by blast
  from a have ex: "(case excluded of None \<Rightarrow> [] | Some pts \<Rightarrow> pts) = exc" by simp
  from a have tg: "First (foldl (\<lambda>l pt. locator_filter l (HasNotText pt))
                     (foldl (\<lambda>l pt. locator_filter l (HasText pt)) (Locator sel) inc) exc)
                   = target"
    by (simp only: partial_text_target)
  {
    assume p: "pg_to_be_attached pg (First (Locator sel)) (timeout * 1000) w = (Inr (), wa)"
    {
      assume "pg_click pg target (timeout * 1000) wa = (Inr (), wb)"
      with p show "BSCmfx_click_element_by_partial_texts self locator inc excluded timeout w
                   = (Inr True, wb)"
        by (simp add: BSCmfx_click_element_by_partial_texts_def
            BSCmfx_wait_element_to_be_present_def pl ex tg del: locator_filter.simps)
    }
    {
      assume "pg_click pg target (timeout * 1000) wa = (Inl TimeoutError, wb)"
      with p show "BSCmfx_click_element_by_partial_texts self locator inc excluded timeout w
                   = (Inr False, wb)"
        by (simp add: BSCmfx_click_element_by_partial_texts_def
            BSCmfx_wait_element_to_be_present_def pl ex tg del: locator_filter.simps)
    }
  }
  {
    assume "pg_to_be_attached pg (First (Locator sel)) (timeout * 1000) w = (Inl AssertionError, wa)"
    then show "BSCmfx_click_element_by_partial_texts self locator inc excluded timeout w
                = (Inl AssertionError, wa)"
      by (simp add: BSCmfx_click_element_by_partial_texts_def
          BSCmfx_wait_element_to_be_present_def pl)
  }
next
  assume "page self = Some pg \<and> loc_by locator \<noteq> CSS_SELECTOR \<and> loc_by locator \<noteq> XPATH"
  then have pl: "page_locator self locator =
     Inl (ValueError (''Tipo de selector no v'' @ [CHR 0xE1] @ ''lido: '' @ by_str (loc_by locator)))"
    using page_locator_unsupported [of self pg locator] by blast
  show "BSCmfx_click_element_by_partial_texts self locator inc excluded timeout w =
        (Inl (ValueError (''Tipo de selector no v'' @ [CHR 0xE1] @ ''lido: ''
                          @ by_str (loc_by locator))), w)"
    by (simp add: BSCmfx_click_element_by_partial_texts_def
        BSCmfx_wait_element_to_be_present_def pl)
qed

theorem click_by_partial_texts_outcomes_witness:
  "BSCmfx_click_element_by_partial_texts (open_session shop_page) (xpath ''//button'')
     [''Add'', '''', ''wishlist''] (Some [''sold'', '''']) 10 []
     = (Inr True, [Queried, Clicked ''Add to wishlist''])
   \<and> BSCmfx_click_element_by_partial_texts (open_session shop_page) (css ''button'')
     [''Checkout''] None 10 [] = (Inr False, [Queried, Queried])
   \<and> BSCmfx_click_element_by_partial_texts (open_session shop_page) (xpath ''//a'')
     [''Add''] None 10 [] = (Inl AssertionError, [Queried])
   \<and> BSCmfx_click_element_by_partial_texts (open_session shop_page) (partial_link_text ''Add'')
     [''Add''] None 10 [] =
       (Inl (ValueError (''Tipo de selector no v'' @ [CHR 0xE1] @ ''lido: partial link text'')), [])"
proof -
  let ?t1 = "First (Filtered (Filtered (Filtered (Locator ''xpath=//button'') (HasText ''Add''))
                  (HasText ''wishlist'')) (HasNotText ''sold''))"
  let ?t2 = "First (Filtered (Locator ''button'') (HasText ''Checkout''))"
  have a1: "pg_to_be_attached (static_page shop_page) (First (Locator ''xpath=//button''))
              (10 * 1000) [] = (Inr (), [Queried])"
    by (simp add: static_page_def shop_page_def)
  have k1: "pg_click (static_page shop_page) ?t1 (10 * 1000) [Queried]
              = (Inr (), [Queried, Clicked ''Add to wishlist''])"
    by (simp add: static_page_def shop_page_def)
  have a2: "pg_to_be_attached (static_page shop_page) (First (Locator ''button''))
              (10 * 1000) [] = (Inr (), [Queried])"
    by (simp add: static_page_def shop_page_def)
  have k2: "pg_click (static_page shop_page) ?t2 (10 * 1000) [Queried]
              = (Inl TimeoutError, [Queried, Queried])"
    by (simp add: static_page_def shop_page_def)
  have a3: "pg_to_be_attached (static_page shop_page) (First (Locator ''xpath=//a''))
              (10 * 1000) [] = (Inl AssertionError, [Queried])"
    by (simp add: static_page_def shop_page_def)
  note t1 = click_by_partial_texts_outcomes [where self = "open_session shop_page"
      and pg = "static_page shop_page" and locator = "xpath ''//button''"
      and sel = "''xpath=//button''" and inc = "[''Add'', '''', ''wishlist'']"
      and excluded = "Some [''sold'', '''']" and exc = "[''sold'', '''']" and target = ?t1
      and timeout = 10 and w = "[]" and wa = "[Queried]"
      and wb = "[Queried, Clicked ''Add to wishlist'']", THEN conjunct1]
  note t2 = click_by_partial_texts_outcomes [where self = "open_session shop_page"
      and pg = "static_page shop_page" and locator = "css ''button''"
      and sel = "''button''" and inc = "[''Checkout'']"
      and excluded = None and exc = "[]" and target = ?t2
      and timeout = 10 and w = "[]" and wa = "[Queried]"
      and wb = "[Queried, Queried]", THEN conjunct1]
  note t3 = click_by_partial_texts_outcomes [where self = "open_session shop_page"
      and pg = "static_page shop_page" and locator = "xpath ''//a''"
      and sel = "''xpath=//a''" and inc = "[''Add'']"
      and excluded = None and exc = "[]"
      and target = "First (Filtered (Locator ''xpath=//a'') (HasText ''Add''))"
      and timeout = 10 and w = "[]" and wa = "[Queried]", THEN conjunct1]
  note t4 = click_by_partial_texts_outcomes [where self = "open_session shop_page"
      and pg = "static_page shop_page" and locator = "partial_link_text ''Add''"
      and inc = "[''Add'']" and excluded = None and timeout = 10 and w = "[]",
      THEN conjunct2]
  have c1: "BSCmfx_click_element_by_partial_texts (open_session shop_page) (xpath ''//button'')
     [''Add'', '''', ''wishlist''] (Some [''sold'', '''']) 10 []
     = (Inr True, [Queried, Clicked ''Add to wishlist''])"
    using t1 shop_page_session a1 k1 by (simp add: xpath_def)
  have c2: "BSCmfx_click_element_by_partial_texts (open_session shop_page) (css ''button'')
     [''Checkout''] None 10 [] = (Inr False, [Queried, Queried])"
    using t2 shop_page_session a2 k2 by (simp add: css_def)
  have c3: "BSCmfx_click_element_by_partial_texts (open_session shop_page) (xpath ''//a'')
     [''Add''] None 10 [] = (Inl AssertionError, [Queried])"
    using t3 shop_page_session a3 by (simp add: xpath_def)
  have c4: "BSCmfx_click_element_by_partial_texts (open_session shop_page) (partial_link_text ''Add'')
     [''Add''] None 10 [] =
       (Inl (ValueError (''Tipo de selector no v'' @ [CHR 0xE1] @ ''lido: partial link text'')), [])"
    using t4 shop_page_session by (simp add: partial_link_text_def)
  from c1 c2 c3 c4 show ?thesis by blast
qed

section \<open>Element lookup and its single retry\<close>







section \<open>Closing the session and comparing attributes\<close>

lemma quit_closed:
  "camoufox_instance self = None \<Longrightarrow> BSCmfx_quit self w = (Inr (), self, w)"
  by (simp add: BSCmfx_quit_def)

lemma quit_again:
  "camoufox_instance self = None \<Longrightarrow>
   ((\<lambda>(r :: exn + unit, s, x). BSCmfx_quit s x) ^^ n) (Inr (), self, w) = (Inr (), self, w)"
proof (induction n)
  case 0
  show ?case by simp
next
  case (Suc n)
  then show ?case by (simp add: quit_closed)
qed

text \<open>
  C9. When the engine instance is set and its release returns, \<open>quit\<close> releases it and
  sets the engine instance, the browser and the page to \<open>None\<close>; any number of further
  calls change neither the wrapper nor the browser state and return normally. On a
  wrapper whose engine instance is \<open>None\<close>, \<open>quit\<close> makes no engine call and changes
  nothing, however often it is called.
\<close>

theorem quit_idempotent:
  "(camoufox_instance self = Some inst \<and> aexit inst w = (Inr (), w')
    \<longrightarrow>
      BSCmfx_quit self w =
        (Inr (), self\<lparr>camoufox_instance := None, browser := None, page := None\<rparr>, w')
      \<and> ((\<lambda>(r :: exn + unit, s, x). BSCmfx_quit s x) ^^ n) (BSCmfx_quit self w) = BSCmfx_quit self w)
   \<and> (camoufox_instance self = None
    \<longrightarrow>
      BSCmfx_quit self w = (Inr (), self, w)
      \<and> ((\<lambda>(r :: exn + unit, s, x). BSCmfx_quit s x) ^^ n) (BSCmfx_quit self w) = (Inr (), self, w))"
proof (intro conjI impI)
  assume a: "camoufox_instance self = Some inst \<and> aexit inst w = (Inr (), w')"
  then show q: "BSCmfx_quit self w =
        (Inr (), self\<lparr>camoufox_instance := None, browser := None, page := None\<rparr>, w')"
    by (simp add: BSCmfx_quit_def)
  have "camoufox_instance (self\<lparr>camoufox_instance := None, browser := None, page := None\<rparr>) = None"
    by simp
  then show "((\<lambda>(r :: exn + unit, s, x). BSCmfx_quit s x) ^^ n) (BSCmfx_quit self w) = BSCmfx_quit self w"
    unfolding q by (rule quit_again)
next
  assume a: "camoufox_instance self = None"
  then show q: "BSCmfx_quit self w = (Inr (), self, w)"
    by (rule quit_closed)
  from a show "((\<lambda>(r :: exn + unit, s, x). BSCmfx_quit s x) ^^ n) (BSCmfx_quit self w) = (Inr (), self, w)"
    unfolding q by (rule quit_again)
qed

theorem quit_idempotent_witness:
  "BSCmfx_quit (open_session shop_page) [] =
     (Inr (), (open_session shop_page)\<lparr>camoufox_instance := None, browser := None, page := None\<rparr>,
      [Released])
   \<and> ((\<lambda>(r :: exn + unit, s, x). BSCmfx_quit s x) ^^ 3) (BSCmfx_quit (open_session shop_page) []) =
     (Inr (), (open_session shop_page)\<lparr>camoufox_instance := None, browser := None, page := None\<rparr>,
      [Released])
   \<and> BSCmfx_quit \<lparr>camoufox_instance = None, browser = None, page = None\<rparr> [Queried] =
     (Inr (), \<lparr>camoufox_instance = None, browser = None, page = None\<rparr>, [Queried])"
proof -
  let ?inst = "\<lparr>aexit = (\<lambda>w. (Inr (), w @ [Released]))\<rparr>"
  have i: "camoufox_instance (open_session shop_page) = Some ?inst"
    by (simp add: open_session_def)
  have x: "aexit ?inst [] = (Inr (), [Released])"
    by simp
  note t1 = quit_idempotent [where self = "open_session shop_page" and inst = ?inst
      and w = "[]" and w' = "[Released]" and n = 3, THEN conjunct1]
  note t2 = quit_idempotent [where
      self = "\<lparr>camoufox_instance = None, browser = None, page = None\<rparr> :: event list BSCmfx"
      and w = "[Queried]" and n = 3, THEN conjunct2]
  have c1: "BSCmfx_quit (open_session shop_page) [] =
     (Inr (), (open_session shop_page)\<lparr>camoufox_instance := None, browser := None, page := None\<rparr>,
      [Released])
   \<and> ((\<lambda>(r :: exn + unit, s, x). BSCmfx_quit s x) ^^ 3) (BSCmfx_quit (open_session shop_page) []) =
     (Inr (), (open_session shop_page)\<lparr>camoufox_instance := None, browser := None, page := None\<rparr>,
      [Released])"
  proof -
    from t1 i x have q: "BSCmfx_quit (open_session shop_page) [] =
       (Inr (), (open_session shop_page)\<lparr>camoufox_instance := None, browser := None, page := None\<rparr>,
        [Released])"
      and r: "((\<lambda>(r :: exn + unit, s, x). BSCmfx_quit s x) ^^ 3)
                (BSCmfx_quit (open_session shop_page) []) = BSCmfx_quit (open_session shop_page) []"
      by blast+
    from r have "((\<lambda>(r :: exn + unit, s, x). BSCmfx_quit s x) ^^ 3)
                (BSCmfx_quit (open_session shop_page) []) =
       (Inr (), (open_session shop_page)\<lparr>camoufox_instance := None, browser := None, page := None\<rparr>,
        [Released])"
      by (simp only: q)
    with q show ?thesis by blast
  qed
  have c2: "BSCmfx_quit \<lparr>camoufox_instance = None, browser = None, page = None\<rparr> [Queried] =
     (Inr (), \<lparr>camoufox_instance = None, browser = None, page = None\<rparr>, [Queried])"
    using t2 by simp
  from c1 c2 show ?thesis by blast
qed

text \<open>
  C10. When the attribute lookup returns \<open>None\<close> and \<open>ignore_case\<close> is true,
  \<open>check_attribute_is_equals\<close> raises \<open>AttributeError\<close> (lower-casing \<open>None\<close>) instead of
  returning false; the button of the example page, which has no \<open>id\<close> attribute, is
  such an input. When the attribute is present or \<open>ignore_case\<close> is false, it returns a
  boolean: the equality of the values, lower-cased when \<open>ignore_case\<close> is true.
\<close>

theorem check_attribute_is_equals_partial:
  "(page self = Some pg
      \<and> (loc_by locator = CSS_SELECTOR \<and> sel = loc_value locator
           \<or> loc_by locator = XPATH \<and> sel = ''xpath='' @ loc_value locator)
      \<and> pg_get_attribute pg (Locator sel) attr (timeout * 1000) w = (Inr a, w')
    \<longrightarrow>
      (a = None \<and> ignore_case
       \<longrightarrow> BSCmfx_check_attribute_is_equals self locator attr content ignore_case timeout w
             = (Inl (AttributeError ''lower''), w'))
      \<and> (a \<noteq> None \<or> \<not> ignore_case
       \<longrightarrow> (\<exists>b. BSCmfx_check_attribute_is_equals self locator attr content ignore_case
                   timeout w = (Inr b, w')))
      \<and> (\<not> ignore_case
       \<longrightarrow> BSCmfx_check_attribute_is_equals self locator attr content ignore_case timeout w
             = (Inr (a = Some content), w'))
      \<and> (a = Some v \<and> ignore_case
       \<longrightarrow> BSCmfx_check_attribute_is_equals self locator attr content ignore_case timeout w
             = (Inr (lower v = lower content), w')))
   \<and> BSCmfx_check_attribute_is_equals (open_session shop_page) (css ''button'') ''id'' ''buy''
       True 10 [] = (Inl (AttributeError ''lower''), [Queried])
   \<and> BSCmfx_check_attribute_is_equals (open_session shop_page) (css ''button'') ''id'' ''buy''
       False 10 [] = (Inr False, [Queried])"
proof (intro conjI impI)
  assume a: "page self = Some pg
      \<and> (loc_by locator = CSS_SELECTOR \<and> sel = loc_value locator
           \<or> loc_by locator = XPATH \<and> sel = ''xpath='' @ loc_value locator)
      \<and> pg_get_attribute pg (Locator sel) attr (timeout * 1000) w = (Inr a, w')"
  then have pl: "page_locator self locator = Inr (pg, Locator sel)"
    using page_locator_supported [of self pg locator sel] by blast
  from a have g: "BSCmfx_get_attribute_value self locator attr timeout w = (Inr a, w')"
    by (simp add: BSCmfx_get_attribute_value_def pl)
  {
    assume "a = None \<and> ignore_case"
    then show "BSCmfx_check_attribute_is_equals self locator attr content ignore_case timeout w
             = (Inl (AttributeError ''lower''), w')"
      by (simp add: BSCmfx_check_attribute_is_equals_def g)
  }
  {
    assume "a \<noteq> None \<or> \<not> ignore_case"
    then show "\<exists>b. BSCmfx_check_attribute_is_equals self locator attr content ignore_case
                   timeout w = (Inr b, w')"
      by (auto simp: BSCmfx_check_attribute_is_equals_def g)
  }
  {
    assume "\<not> ignore_case"
    then show "BSCmfx_check_attribute_is_equals self locator attr content ignore_case timeout w
             = (Inr (a = Some content), w')"
      by (simp add: BSCmfx_check_attribute_is_equals_def g)
  }
  {
    assume "a = Some v \<and> ignore_case"
    then show "BSCmfx_check_attribute_is_equals self locator attr content ignore_case timeout w
             = (Inr (lower v = lower content), w')"
      by (simp add: BSCmfx_check_attribute_is_equals_def g)
  }
next
  show "BSCmfx_check_attribute_is_equals (open_session shop_page) (css ''button'') ''id'' ''buy''
       True 10 [] = (Inl (AttributeError ''lower''), [Queried])"
    by (simp add: BSCmfx_check_attribute_is_equals_def BSCmfx_get_attribute_value_def
        page_locator_def get_pw_locator_def open_session_def css_def static_page_def
        shop_page_def)
next
  show "BSCmfx_check_attribute_is_equals (open_session shop_page) (css ''button'') ''id'' ''buy''
       False 10 [] = (Inr False, [Queried])"
    by (simp add: BSCmfx_check_attribute_is_equals_def BSCmfx_get_attribute_value_def
        page_locator_def get_pw_locator_def open_session_def css_def static_page_def
        shop_page_def)
qed

theorem check_attribute_is_equals_partial_witness:
  "BSCmfx_check_attribute_is_equals (open_session shop_page) (xpath ''//button'') ''id'' ''buy''
     True 10 [] = (Inl (AttributeError ''lower''), [Queried])
   \<and> (\<exists>b. BSCmfx_check_attribute_is_equals (open_session shop_page) (xpath ''//button'') ''id''
          ''buy'' False 10 [] = (Inr b, [Queried]))
   \<and> BSCmfx_check_attribute_is_equals (open_session shop_page) (css ''button'') ''class''
     ''primary'' True 10 [] = (Inr True, [Queried])
   \<and> BSCmfx_check_attribute_is_equals (open_session shop_page) (css ''button'') ''class''
     ''primary'' False 10 [] = (Inr False, [Queried])"
proof -
  have g1: "pg_get_attribute (static_page shop_page) (Locator ''xpath=//button'') ''id''
              (10 * 1000) [] = (Inr None, [Queried])"
    by (simp add: static_page_def shop_page_def)
  have g2: "pg_get_attribute (static_page shop_page) (Locator ''button'') ''class''
              (10 * 1000) [] = (Inr (Some ''Primary''), [Queried])"
    by (simp add: static_page_def shop_page_def)
  have l: "lower ''Primary'' = lower ''primary''"
    by code_simp
  note t1 = check_attribute_is_equals_partial [where self = "open_session shop_page"
      and pg = "static_page shop_page" and locator = "xpath ''//button''"
      and sel = "''xpath=//button''" and attr = "''id''" and content = "''buy''"
      and timeout = 10 and w = "[]" and w' = "[Queried]" and a = None
      and ignore_case = True, THEN conjunct1]
  note t2 = check_attribute_is_equals_partial [where self = "open_session shop_page"
      and pg = "static_page shop_page" and locator = "xpath ''//button''"
      and sel = "''xpath=//button''" and attr = "''id''" and content = "''buy''"
      and timeout = 10 and w = "[]" and w' = "[Queried]" and a = None
      and ignore_case = False, THEN conjunct1]
  note t3 = check_attribute_is_equals_partial [where self = "open_session shop_page"
      and pg = "static_page shop_page" and locator = "css ''button''"
      and sel = "''button''" and attr = "''class''" and content = "''primary''"
      and timeout = 10 and w = "[]" and w' = "[Queried]" and a = "Some ''Primary''"
      and v = "''Primary''" and ignore_case = True, THEN conjunct1]
  note t4 = check_attribute_is_equals_partial [where self = "open_session shop_page"
      and pg = "static_page shop_page" and locator = "css ''button''"
      and sel = "''button''" and attr = "''class''" and content = "''primary''"
      and timeout = 10 and w = "[]" and w' = "[Queried]" and a = "Some ''Primary''"
      and ignore_case = False, THEN conjunct1]
  have c1: "BSCmfx_check_attribute_is_equals (open_session shop_page) (xpath ''//button'') ''id''
     ''buy'' True 10 [] = (Inl (AttributeError ''lower''), [Queried])"
    using t1 shop_page_session g1 by (simp add: xpath_def)
  have c2: "\<exists>b. BSCmfx_check_attribute_is_equals (open_session shop_page) (xpath ''//button'')
     ''id'' ''buy'' False 10 [] = (Inr b, [Queried])"
    using t2 shop_page_session g1 by (auto simp: xpath_def)
  have c3: "BSCmfx_check_attribute_is_equals (open_session shop_page) (css ''button'') ''class''
     ''primary'' True 10 [] = (Inr True, [Queried])"
    using t3 shop_page_session g2 l by (simp add: css_def)
  have c4: "BSCmfx_check_attribute_is_equals (open_session shop_page) (css ''button'') ''class''
     ''primary'' False 10 [] = (Inr False, [Queried])"
    using t4 shop_page_session g2 by (simp add: css_def)
  from c1 c2 c3 c4 show ?thesis by blast
qed

end
